theory Spec2Isabelle
  imports Complex_Main "HOL-Library.Multiset"
begin

section \<open>Data model of \<open>delivery_manager.py\<close>\<close>

text \<open>
  Exceptions are values. \<open>ValueError\<close> is raised by the singleton getter,
  \<open>AttributeError\<close> by reading an attribute that has not been set, \<open>IndexError\<close> by
  \<open>random.choice\<close> on an empty sequence and by \<open>list.pop\<close> out of range. An injected
  random source or an event handler may raise anything else: another instance of
  \<open>Exception\<close> with its text (\<open>OtherException\<close>), an instance of \<open>Exception\<close> whose
  \<open>__str__\<close> raises in its turn (\<open>UnprintableException\<close>, with what it raises), or an
  exception outside \<open>Exception\<close> such as \<open>SystemExit\<close> or \<open>KeyboardInterrupt\<close>
  (\<open>BaseException\<close>).
\<close>

datatype error =
    ValueError string
  | IndexError string
  | AttributeError string
  | OtherException string
  | UnprintableException error
  | BaseException string

text \<open>\<open>isinstance(e, Exception)\<close>: what \<open>except Exception\<close> catches.\<close>

fun is_Exception :: "error \<Rightarrow> bool" where
  "is_Exception (BaseException s) = False"
| "is_Exception e = True"

text \<open>The text of an exception as an f-string formats it, or the exception that raises.\<close>

fun str_of :: "error \<Rightarrow> error + string" where
  "str_of (ValueError s) = Inr s"
| "str_of (IndexError s) = Inr s"
| "str_of (AttributeError s) = Inr s"
| "str_of (OtherException s) = Inr s"
| "str_of (UnprintableException e) = Inl e"
| "str_of (BaseException s) = Inr s"

datatype level = WARNING | INFO | ERROR

datatype event_kind = RecipeSpawned | RecipeCompleted | RecipeSuccess | RecipeFailed

text \<open>
  The observable effects of a run, in the order they happen: a record written with the
  \<open>logging\<close> module, the call of \<open>invoke\<close> on one of the manager's four events, and the
  call of one handler. Handlers are compared by identity
  (\<open>handler not in self._handlers\<close>); \<open>'h\<close> is the type of these identities.
\<close>

datatype 'h effect = Log level string | Publish event_kind | Call 'h

record 'h Event =
  handlers :: "'h list"

record KitchenObjectSO =
  name :: string
  object_id :: int

record RecipeSO =
  recipe_name :: string
  kitchen_object_so_list :: "KitchenObjectSO list"

record RecipeListSO =
  recipe_so_list :: "RecipeSO list"

subsection \<open>List objects\<close>

text \<open>
  Python lists are objects: \<open>append\<close> and \<open>pop\<close> change the object in place, and
  \<open>xs.copy()\<close> and \<open>list(xs)\<close> build a new object. The two lists whose identity matters here
  (the manager's queue and a plate's ingredients) live in a store of list objects: the cell
  at a reference holds the object's elements, and \<open>next_ref\<close> is the first reference never
  handed out.
\<close>

record 'a heap =
  cells :: "nat \<Rightarrow> 'a list"
  next_ref :: nat

definition deref :: "'a heap \<Rightarrow> nat \<Rightarrow> 'a list" where
  "deref h r = cells h r"

definition list_store :: "nat \<Rightarrow> 'a list \<Rightarrow> 'a heap \<Rightarrow> 'a heap" where
  "list_store r xs h = h\<lparr>cells := (cells h)(r := xs)\<rparr>"

definition new_list :: "'a list \<Rightarrow> 'a heap \<Rightarrow> nat \<times> 'a heap" where
  "new_list xs h = (next_ref h, h\<lparr>cells := (cells h)(next_ref h := xs), next_ref := Suc (next_ref h)\<rparr>)"

definition list_copy :: "nat \<Rightarrow> 'a heap \<Rightarrow> nat \<times> 'a heap" where
  "list_copy r h = new_list (deref h r) h"

definition list_append :: "nat \<Rightarrow> 'a \<Rightarrow> 'a heap \<Rightarrow> 'a heap" where
  "list_append r x h = list_store r (deref h r @ [x]) h"

definition list_pop :: "nat \<Rightarrow> nat \<Rightarrow> 'a heap \<Rightarrow> error + ('a \<times> 'a heap)" where
  "list_pop r i h =
     (if i < length (deref h r)
      then Inr (deref h r ! i, list_store r (take i (deref h r) @ drop (Suc i) (deref h r)) h)
      else Inl (IndexError ''pop index out of range''))"

subsection \<open>The event class\<close>

definition Event_init :: "'h Event" where
  "Event_init = \<lparr>handlers = []\<rparr>"

definition add_handler :: "'h \<Rightarrow> 'h Event \<Rightarrow> 'h Event" where
  "add_handler h ev = (if h \<notin> set (handlers ev) then ev\<lparr>handlers := handlers ev @ [h]\<rparr> else ev)"

definition remove_handler :: "'h \<Rightarrow> 'h Event \<Rightarrow> 'h Event" where
  "remove_handler h ev = (if h \<in> set (handlers ev) then ev\<lparr>handlers := remove1 h (handlers ev)\<rparr> else ev)"

datatype 'h event_op = AddHandler 'h | RemoveHandler 'h

fun apply_event_op :: "'h event_op \<Rightarrow> 'h Event \<Rightarrow> 'h Event" where
  "apply_event_op (AddHandler h) ev = add_handler h ev"
| "apply_event_op (RemoveHandler h) ev = remove_handler h ev"

definition event_after :: "'h event_op list \<Rightarrow> 'h Event" where
  "event_after ops = fold apply_event_op ops Event_init"

text \<open>
  What a handler does when it is called, as far as the event can tell: the subscriptions
  and unsubscriptions it makes on the event that is calling it, and then whether it returns
  (\<open>None\<close>) or raises.
\<close>

type_synonym 'h behaviour = "'h \<Rightarrow> 'h event_op list \<times> error option"

text \<open>
  \<open>invoke\<close>, as the code runs it. The \<open>for\<close> loop walks the list object
  \<open>self._handlers\<close> itself, by position: at each turn it takes the handler at position
  \<open>i\<close> of the list as it is then, if there is one. The call is inside \<open>try\<close>: an
  instance of \<open>Exception\<close> is caught and formatted into the log record (which raises if
  its \<open>__str__\<close> raises), any other exception leaves \<open>invoke\<close>. The result is the
  exception that left \<open>invoke\<close>, if any, the event after the calls and the effects, added
  to those of \<open>acc\<close>. Handlers that subscribe new handlers without end keep the loop
  running: then there is no result.
\<close>

partial_function (option) invoke_live ::
  "'h behaviour \<Rightarrow> nat \<Rightarrow> 'h Event \<Rightarrow> 'h effect list
     \<Rightarrow> (error option \<times> 'h Event \<times> 'h effect list) option" where
  "invoke_live beh i ev acc =
     (if i < length (handlers ev) then
        (case snd (beh (handlers ev ! i)) of
           None \<Rightarrow>
             invoke_live beh (Suc i) (fold apply_event_op (fst (beh (handlers ev ! i))) ev)
               (acc @ [Call (handlers ev ! i)])
         | Some e \<Rightarrow>
             if is_Exception e then
               (case str_of e of
                  Inr msg \<Rightarrow>
                    invoke_live beh (Suc i)
                      (fold apply_event_op (fst (beh (handlers ev ! i))) ev)
                      (acc @ [Call (handlers ev ! i),
                              Log ERROR (''Event handler error: '' @ msg)])
                | Inl e2 \<Rightarrow>
                    Some (Some e2, fold apply_event_op (fst (beh (handlers ev ! i))) ev,
                          acc @ [Call (handlers ev ! i)]))
             else
               Some (Some e, fold apply_event_op (fst (beh (handlers ev ! i))) ev,
                     acc @ [Call (handlers ev ! i)]))
      else Some (None, ev, acc))"

text \<open>
  The handlers subscribed to the manager's own events are taken to be of the plain kind:
  a plain handler leaves the subscriptions alone and either returns or raises an instance
  of \<open>Exception\<close> whose text is the second component. Handlers do not call back into the
  manager. For such handlers the loop of \<open>invoke\<close> is a loop over the list.
\<close>

datatype handler = Handler (handler_id: nat) (handler_raises: "string option")

definition handler_behaviour :: "handler behaviour" where
  "handler_behaviour h = ([], map_option OtherException (handler_raises h))"

fun invoke_loop :: "handler list \<Rightarrow> handler effect list" where
  "invoke_loop [] = []"
| "invoke_loop (h # hs) =
     (case handler_raises h of
        None \<Rightarrow> [Call h]
      | Some e \<Rightarrow> [Call h, Log ERROR (''Event handler error: '' @ e)]) @ invoke_loop hs"

definition invoke :: "handler Event \<Rightarrow> handler effect list" where
  "invoke ev = invoke_loop (handlers ev)"

subsection \<open>The manager\<close>

text \<open>
  The listing has one class statement, \<open>class KitchenGameManager:\<close>, and no line
  \<open>class DeliveryManager:\<close>: the docstring of line 104 and everything from line 110 to
  line 219 stand in the body of \<open>KitchenGameManager\<close>. So the \<open>_instance\<close>,
  \<open>__init__\<close> and \<open>get_instance\<close> of lines 110 to 139 replace those of lines 79 to 89,
  and an object of the class is the delivery manager and the game manager in one. Its
  constructor never sets \<open>_is_game_playing\<close>: the attribute exists once \<open>start_game\<close> or
  \<open>stop_game\<close> has run (\<open>None\<close> until then). The record keeps the name of the role.

  The clock \<open>self._timer\<close> is called once in \<open>update\<close>; its result is the argument
  \<open>now\<close> of the model. The random source \<open>self._random\<close> gets the catalogue and, in the
  model, the entropy it consumes; it returns a recipe or raises.

  Timestamps and the timer are floating-point numbers. Their type \<open>'t\<close> is left open: it
  has a subtraction, a comparison and the constants 0 and 1 with an addition to write 4.0,
  and nothing is assumed of these operations. What is proved of \<open>update\<close> for every such
  type holds of the doubles with their rounding, and of the real numbers.
\<close>

type_synonym random_source = "nat \<Rightarrow> RecipeSO list \<Rightarrow> error + RecipeSO"

record 't DeliveryManager =
  on_recipe_spawned :: "handler Event"
  on_recipe_completed :: "handler Event"
  on_recipe_success :: "handler Event"
  on_recipe_failed :: "handler Event"
  recipe_list_so :: RecipeListSO
  waiting_recipe_so_list :: nat
  spawn_recipe_timer :: 't
  successful_recipes_amount :: int
  last_update_time :: "'t option"
  random_gen :: random_source
  is_game_playing_attr :: "bool option"

text \<open>
  The class attribute \<open>_instance\<close>, as a method running on a manager sees it: no object,
  this manager itself, or another manager.
\<close>

datatype 't instance_slot = NoInstance | ThisManager | OtherManager "'t DeliveryManager"

record PlateKitchenObject =
  plate_kitchen_object_so_list :: nat

text \<open>
  The state outside the manager whose method runs: the class attribute \<open>_instance\<close>, the
  store of recipe lists (the queue and its snapshots), the store of ingredient lists (the
  plates' lists and their copies), and the effects so far.
\<close>

record 't world =
  instance_ref :: "'t instance_slot"
  recipe_lists :: "RecipeSO heap"
  ingredient_lists :: "KitchenObjectSO heap"
  trace :: "handler effect list"

definition PlateKitchenObject_init :: "'t world \<Rightarrow> PlateKitchenObject \<times> 't world" where
  "PlateKitchenObject_init w =
     (let (r, h) = new_list [] (ingredient_lists w)
      in (\<lparr>plate_kitchen_object_so_list = r\<rparr>, w\<lparr>ingredient_lists := h\<rparr>))"

definition add_kitchen_object :: "PlateKitchenObject \<Rightarrow> KitchenObjectSO \<Rightarrow> 't world \<Rightarrow> 't world" where
  "add_kitchen_object plate kitchen_object w =
     w\<lparr>ingredient_lists := list_append (plate_kitchen_object_so_list plate) kitchen_object (ingredient_lists w)\<rparr>"

definition get_kitchen_object_so_list :: "PlateKitchenObject \<Rightarrow> 't world \<Rightarrow> nat \<times> 't world" where
  "get_kitchen_object_so_list plate w =
     (let (r, h) = list_copy (plate_kitchen_object_so_list plate) (ingredient_lists w)
      in (r, w\<lparr>ingredient_lists := h\<rparr>))"

definition is_game_playing :: "'t DeliveryManager \<Rightarrow> error + bool" where
  "is_game_playing self =
     (case is_game_playing_attr self of
        None \<Rightarrow>
          Inl (AttributeError
                 ''KitchenGameManager object has no attribute _is_game_playing'')
      | Some playing \<Rightarrow> Inr playing)"

definition start_game :: "'t DeliveryManager \<Rightarrow> 't DeliveryManager" where
  "start_game self = self\<lparr>is_game_playing_attr := Some True\<rparr>"

definition stop_game :: "'t DeliveryManager \<Rightarrow> 't DeliveryManager" where
  "stop_game self = self\<lparr>is_game_playing_attr := Some False\<rparr>"

text \<open>The literal \<open>4.0\<close>, written with the constants and the addition of \<open>'t\<close>.\<close>

definition SPAWN_RECIPE_TIMER_MAX :: "'t::{one,plus}" where
  "SPAWN_RECIPE_TIMER_MAX = 1 + 1 + 1 + 1"

definition WAITING_RECIPES_MAX :: nat where
  "WAITING_RECIPES_MAX = 4"

text \<open>\<open>random.choice\<close>: an element of a non-empty sequence, \<open>IndexError\<close> on an empty one.\<close>

definition random_choice :: random_source where
  "random_choice entropy xs =
     (if xs = [] then Inl (IndexError ''Cannot choose from an empty sequence'')
      else Inr (xs ! (entropy mod length xs)))"

definition init ::
  "RecipeListSO \<Rightarrow> random_source option \<Rightarrow> 't world
     \<Rightarrow> ('t::{one,plus}) DeliveryManager \<times> 't world" where
  "init recipe_list random_src w =
     (let (r, h) = new_list [] (recipe_lists w)
      in (\<lparr>on_recipe_spawned = Event_init,
           on_recipe_completed = Event_init,
           on_recipe_success = Event_init,
           on_recipe_failed = Event_init,
           recipe_list_so = recipe_list,
           waiting_recipe_so_list = r,
           spawn_recipe_timer = SPAWN_RECIPE_TIMER_MAX,
           successful_recipes_amount = 0,
           last_update_time = None,
           random_gen = (case random_src of None \<Rightarrow> random_choice | Some g \<Rightarrow> g),
           is_game_playing_attr = None\<rparr>,
          w\<lparr>recipe_lists := h\<rparr>))"

text \<open>
  Line 138, \<open>cls._instance = cls(recipe_list_so, timer, random_gen)\<close>: the manager is
  constructed and becomes the singleton.
\<close>

definition create_instance ::
  "RecipeListSO \<Rightarrow> random_source option \<Rightarrow> 't world
     \<Rightarrow> ('t::{one,plus}) DeliveryManager \<times> 't world" where
  "create_instance recipe_list random_src w =
     (case init recipe_list random_src w of (m, w1) \<Rightarrow> (m, w1\<lparr>instance_ref := ThisManager\<rparr>))"

text \<open>
  \<open>get_instance\<close>, given the object that \<open>_instance\<close> refers to, if there is one; the
  lock has no effect on a single thread. The result is the singleton and the world.
\<close>

definition get_instance ::
  "('t::{one,plus}) DeliveryManager option \<Rightarrow> RecipeListSO option \<Rightarrow> random_source option
     \<Rightarrow> 't world \<Rightarrow> error + ('t DeliveryManager \<times> 't world)" where
  "get_instance inst recipe_list random_src w =
     (case inst of
        None \<Rightarrow>
          (case recipe_list of
             None \<Rightarrow> Inl (ValueError ''recipe_list_so is required for initial creation'')
           | Some rl \<Rightarrow> Inr (create_instance rl random_src w))
      | Some m \<Rightarrow> Inr (m, w))"

text \<open>The object \<open>_instance\<close> refers to, for a method running on \<open>self\<close>.\<close>

definition instance_object :: "'t DeliveryManager \<Rightarrow> 't world \<Rightarrow> 't DeliveryManager option" where
  "instance_object self w =
     (case instance_ref w of
        NoInstance \<Rightarrow> None
      | ThisManager \<Rightarrow> Some self
      | OtherManager m \<Rightarrow> Some m)"

text \<open>
  \<open>KitchenGameManager.get_instance().start_game()\<close> and the same with \<open>stop_game\<close>, as a
  driver calls them: the method runs on the singleton, which is this manager or another.
\<close>

definition on_instance ::
  "(('t::{one,plus}) DeliveryManager \<Rightarrow> 't DeliveryManager) \<Rightarrow> 't DeliveryManager \<Rightarrow> 't world
     \<Rightarrow> error option \<times> 't DeliveryManager \<times> 't world" where
  "on_instance method self w =
     (case get_instance (instance_object self w) None None w of
        Inl e \<Rightarrow> (Some e, self, w)
      | Inr (m, w1) \<Rightarrow>
          (case instance_ref w1 of
             NoInstance \<Rightarrow> (None, self, w1)
           | ThisManager \<Rightarrow> (None, method m, w1)
           | OtherManager m' \<Rightarrow> (None, self, w1\<lparr>instance_ref := OtherManager (method m)\<rparr>)))"

definition logging :: "level \<Rightarrow> string \<Rightarrow> 't world \<Rightarrow> 't world" where
  "logging lv msg w = w\<lparr>trace := trace w @ [Log lv msg]\<rparr>"

definition fire :: "event_kind \<Rightarrow> handler Event \<Rightarrow> 't world \<Rightarrow> 't world" where
  "fire k ev w = w\<lparr>trace := trace w @ Publish k # invoke ev\<rparr>"

definition waiting :: "'t DeliveryManager \<Rightarrow> 't world \<Rightarrow> RecipeSO list" where
  "waiting self w = deref (recipe_lists w) (waiting_recipe_so_list self)"

definition update ::
  "'t \<Rightarrow> nat \<Rightarrow> ('t::{minus,zero,ord,one,plus}) DeliveryManager \<Rightarrow> 't world
     \<Rightarrow> error option \<times> 't DeliveryManager \<times> 't world" where
  "update now entropy self w =
     (let last = (case last_update_time self of None \<Rightarrow> now | Some t \<Rightarrow> t);
          delta = now - last;
          self1 = self\<lparr>last_update_time := Some now,
                       spawn_recipe_timer := spawn_recipe_timer self - delta\<rparr>
      in if spawn_recipe_timer self1 \<le> 0 then
           let self2 = self1\<lparr>spawn_recipe_timer := SPAWN_RECIPE_TIMER_MAX\<rparr>
           in (case get_instance (instance_object self2 w) None None w of
                 Inl e \<Rightarrow> (Some e, self2, w)
               | Inr (kitchen_game_manager, w1) \<Rightarrow>
                   (case is_game_playing kitchen_game_manager of
                      Inl e \<Rightarrow> (Some e, self2, w1)
                    | Inr playing \<Rightarrow>
                        if playing \<and> length (waiting self2 w1) < WAITING_RECIPES_MAX
                        then (case random_gen self2 entropy
                                     (recipe_so_list (recipe_list_so self2)) of
                                Inl e \<Rightarrow> (Some e, self2, w1)
                              | Inr waiting_recipe_so \<Rightarrow>
                                  (None, self2,
                                   fire RecipeSpawned (on_recipe_spawned self2)
                                     (w1\<lparr>recipe_lists :=
                                           list_append (waiting_recipe_so_list self2)
                                             waiting_recipe_so (recipe_lists w1)\<rparr>)))
                        else (None, self2, w1)))
         else (None, self1, w))"

subsection \<open>Matching\<close>

text \<open>
  A \<open>Counter\<close> is a dictionary from identifier to count, built by counting the elements one
  by one; here an association list in insertion order. Reading a missing key gives 0, and
  two counters are equal when every key of either has the same count in both.
\<close>

type_synonym counter = "(int \<times> nat) list"

fun counter_add :: "int \<Rightarrow> counter \<Rightarrow> counter" where
  "counter_add k [] = [(k, 1)]"
| "counter_add k ((k', n) # c) =
     (if k = k' then (k', n + 1) # c else (k', n) # counter_add k c)"

definition Counter :: "int list \<Rightarrow> counter" where
  "Counter xs = fold counter_add xs []"

definition counter_get :: "counter \<Rightarrow> int \<Rightarrow> nat" where
  "counter_get c k = (case map_of c k of None \<Rightarrow> 0 | Some n \<Rightarrow> n)"

definition counter_eq :: "counter \<Rightarrow> counter \<Rightarrow> bool" where
  "counter_eq c d = list_all (\<lambda>k. counter_get c k = counter_get d k) (map fst c @ map fst d)"

definition ingredients_match :: "KitchenObjectSO list \<Rightarrow> KitchenObjectSO list \<Rightarrow> bool" where
  "ingredients_match plate_ingredients recipe_ingredients =
     (let plate_counter = Counter (map object_id plate_ingredients);
          recipe_counter = Counter (map object_id recipe_ingredients)
      in counter_eq plate_counter recipe_counter)"

subsection \<open>Delivery\<close>

text \<open>
  The loop over \<open>enumerate(self._waiting_recipe_so_list)\<close> leaves at the first recipe that
  matches: \<open>find_match\<close> is that search, giving the index and the recipe.
\<close>

fun find_match :: "KitchenObjectSO list \<Rightarrow> nat \<Rightarrow> RecipeSO list \<Rightarrow> (nat \<times> RecipeSO) option" where
  "find_match plate_ingredients i [] = None"
| "find_match plate_ingredients i (waiting_recipe # rest) =
     (if ingredients_match plate_ingredients (kitchen_object_so_list waiting_recipe)
      then Some (i, waiting_recipe)
      else find_match plate_ingredients (Suc i) rest)"

definition deliver_recipe ::
  "PlateKitchenObject option \<Rightarrow> 't DeliveryManager \<Rightarrow> 't world
     \<Rightarrow> error option \<times> 't DeliveryManager \<times> 't world" where
  "deliver_recipe plate_kitchen_object self w =
     (case plate_kitchen_object of
        None \<Rightarrow>
          (None, self,
           fire RecipeFailed (on_recipe_failed self)
             (logging WARNING ''Attempted to deliver a None plate.'' w))
      | Some plate \<Rightarrow>
          let (r, w1) = get_kitchen_object_so_list plate w;
              plate_ingredients = deref (ingredient_lists w1) r
          in if plate_ingredients = [] then
               (None, self,
                fire RecipeFailed (on_recipe_failed self)
                  (logging WARNING ''Attempted to deliver an empty plate.'' w1))
             else if waiting self w1 = [] then
               (None, self,
                fire RecipeFailed (on_recipe_failed self)
                  (logging WARNING ''No waiting recipes to deliver.'' w1))
             else
               (case find_match plate_ingredients 0 (waiting self w1) of
                  Some (i, waiting_recipe) \<Rightarrow>
                    let self1 = self\<lparr>successful_recipes_amount := successful_recipes_amount self + 1\<rparr>
                    in (case list_pop (waiting_recipe_so_list self1) i (recipe_lists w1) of
                          Inl e \<Rightarrow> (Some e, self1, w1)
                        | Inr (popped, h) \<Rightarrow>
                            (None, self1,
                             fire RecipeSuccess (on_recipe_success self1)
                               (fire RecipeCompleted (on_recipe_completed self1)
                                 (logging INFO
                                    (''Recipe delivered successfully: '' @ recipe_name waiting_recipe)
                                    (w1\<lparr>recipe_lists := h\<rparr>)))))
                | None \<Rightarrow>
                    (None, self,
                     fire RecipeFailed (on_recipe_failed self)
                       (logging INFO ''No matching recipe found for delivery.'' w1))))"

definition get_waiting_recipe_so_list :: "'t DeliveryManager \<Rightarrow> 't world \<Rightarrow> nat \<times> 't world" where
  "get_waiting_recipe_so_list self w =
     (let (r, h) = list_copy (waiting_recipe_so_list self) (recipe_lists w)
      in (r, w\<lparr>recipe_lists := h\<rparr>))"

definition get_successful_recipes_amount :: "'t DeliveryManager \<Rightarrow> int" where
  "get_successful_recipes_amount self = successful_recipes_amount self"

subsection \<open>Observations and runs\<close>

text \<open>
  Lines 162 and 163, \<open>KitchenGameManager.get_instance().is_game_playing()\<close>: what the
  call gives for a method running on \<open>self\<close>. The gate is active when it gives \<open>True\<close>.
\<close>

definition gate_read :: "('t::{one,plus}) DeliveryManager \<Rightarrow> 't world \<Rightarrow> error + bool" where
  "gate_read self w =
     (case get_instance (instance_object self w) None None w of
        Inl e \<Rightarrow> Inl e
      | Inr (m, w1) \<Rightarrow> is_game_playing m)"

definition gate_active :: "('t::{one,plus}) DeliveryManager \<Rightarrow> 't world \<Rightarrow> bool" where
  "gate_active self w = (gate_read self w = Inr True)"

text \<open>The \<open>delta\<close> of \<open>update\<close>: the time since the last call, \<open>now - now\<close> on the first.\<close>

definition elapsed :: "('t::minus) \<Rightarrow> 't DeliveryManager \<Rightarrow> 't" where
  "elapsed now self = now - (case last_update_time self of None \<Rightarrow> now | Some t \<Rightarrow> t)"

text \<open>The elements of a plate's own ingredient list.\<close>

definition plate_ingredients :: "PlateKitchenObject \<Rightarrow> 't world \<Rightarrow> KitchenObjectSO list" where
  "plate_ingredients plate w = deref (ingredient_lists w) (plate_kitchen_object_so_list plate)"

text \<open>
  The specification's notion of a match, in its own words: the multiset of ingredient
  identifiers of the plate equals that of the recipe.
\<close>

definition multiset_match :: "KitchenObjectSO list \<Rightarrow> RecipeSO \<Rightarrow> bool" where
  "multiset_match plate_list recipe =
     (mset (map object_id plate_list) = mset (map object_id (kitchen_object_so_list recipe)))"

text \<open>
  A driver calls the manager in any order: it updates, delivers, starts and stops the game
  on the singleton, and subscribes and unsubscribes plain handlers on the manager's four
  events. An exception that leaves a call is caught by the driver; the objects stay as the
  call left them.
\<close>

datatype 't call =
    Update 't nat
  | Deliver "PlateKitchenObject option"
  | StartGame
  | StopGame
  | Subscribe event_kind handler
  | Unsubscribe event_kind handler

fun map_event ::
  "event_kind \<Rightarrow> (handler Event \<Rightarrow> handler Event) \<Rightarrow> 't DeliveryManager \<Rightarrow> 't DeliveryManager" where
  "map_event RecipeSpawned f self = self\<lparr>on_recipe_spawned := f (on_recipe_spawned self)\<rparr>"
| "map_event RecipeCompleted f self = self\<lparr>on_recipe_completed := f (on_recipe_completed self)\<rparr>"
| "map_event RecipeSuccess f self = self\<lparr>on_recipe_success := f (on_recipe_success self)\<rparr>"
| "map_event RecipeFailed f self = self\<lparr>on_recipe_failed := f (on_recipe_failed self)\<rparr>"

fun step ::
  "('t::{minus,zero,ord,one,plus}) call \<Rightarrow> 't DeliveryManager \<times> 't world
     \<Rightarrow> 't DeliveryManager \<times> 't world" where
  "step (Update now entropy) (self, w) = snd (update now entropy self w)"
| "step (Deliver plate) (self, w) = snd (deliver_recipe plate self w)"
| "step StartGame (self, w) = snd (on_instance start_game self w)"
| "step StopGame (self, w) = snd (on_instance stop_game self w)"
| "step (Subscribe k h) (self, w) = (map_event k (add_handler h) self, w)"
| "step (Unsubscribe k h) (self, w) = (map_event k (remove_handler h) self, w)"

definition run ::
  "('t::{minus,zero,ord,one,plus}) call list \<Rightarrow> 't DeliveryManager \<times> 't world
     \<Rightarrow> 't DeliveryManager \<times> 't world" where
  "run calls s = fold step calls s"

text \<open>The handlers called in a sequence of effects, in order.\<close>

fun calls_of :: "'h effect list \<Rightarrow> 'h list" where
  "calls_of [] = []"
| "calls_of (Call h # es) = h # calls_of es"
| "calls_of (e # es) = calls_of es"

text \<open>
  A handler is quiet on an event when its call leaves the list of handlers of the event as
  it is, and it returns or raises an instance of \<open>Exception\<close> whose text can be formatted.
  The effects of the call of such a handler are its call and the log record, if it raises.
\<close>

definition quiet :: "'h behaviour \<Rightarrow> 'h Event \<Rightarrow> 'h \<Rightarrow> bool" where
  "quiet beh ev g =
     (fold apply_event_op (fst (beh g)) ev = ev
      \<and> (case snd (beh g) of
            None \<Rightarrow> True
          | Some e \<Rightarrow> is_Exception e \<and> (case str_of e of Inr msg \<Rightarrow> True | Inl e2 \<Rightarrow> False)))"

definition call_effects :: "'h behaviour \<Rightarrow> 'h \<Rightarrow> 'h effect list" where
  "call_effects beh g =
     (case snd (beh g) of
        None \<Rightarrow> [Call g]
      | Some e \<Rightarrow>
          (case str_of e of
             Inr msg \<Rightarrow> [Call g, Log ERROR (''Event handler error: '' @ msg)]
           | Inl e2 \<Rightarrow> [Call g]))"

text \<open>
  What holds of a manager and its world after construction and after every call: the queue
  is within its capacity, the timer is untouched as long as \<open>update\<close> has not been called,
  and the queue is an allocated list object.
\<close>

definition manager_inv :: "('t::{one,plus}) DeliveryManager \<times> 't world \<Rightarrow> bool" where
  "manager_inv s = (case s of (self, w) \<Rightarrow>
      length (waiting self w) \<le> WAITING_RECIPES_MAX
      \<and> (last_update_time self = None \<longrightarrow> spawn_recipe_timer self = SPAWN_RECIPE_TIMER_MAX)
      \<and> waiting_recipe_so_list self < next_ref (recipe_lists w))"

subsection \<open>The usage example\<close>

definition tomato :: KitchenObjectSO where
  "tomato = \<lparr>name = ''Tomato'', object_id = 1\<rparr>"

definition lettuce :: KitchenObjectSO where
  "lettuce = \<lparr>name = ''Lettuce'', object_id = 2\<rparr>"

definition bread :: KitchenObjectSO where
  "bread = \<lparr>name = ''Bread'', object_id = 3\<rparr>"

definition sandwich_recipe :: RecipeSO where
  "sandwich_recipe = \<lparr>recipe_name = ''Sandwich'', kitchen_object_so_list = [bread, lettuce, tomato]\<rparr>"

definition salad_recipe :: RecipeSO where
  "salad_recipe = \<lparr>recipe_name = ''Salad'', kitchen_object_so_list = [lettuce, tomato]\<rparr>"

definition recipe_list :: RecipeListSO where
  "recipe_list = \<lparr>recipe_so_list = [sandwich_recipe, salad_recipe]\<rparr>"

text \<open>The world at program start: no singleton, no list objects, nothing observed.\<close>

definition empty_heap :: "'a heap" where
  "empty_heap = \<lparr>cells = (\<lambda>r. []), next_ref = 0\<rparr>"

definition world0 :: "'t world" where
  "world0 = \<lparr>instance_ref = NoInstance, recipe_lists = empty_heap,
             ingredient_lists = empty_heap, trace = []\<rparr>"

text \<open>
  A plate built as the example builds it: \<open>PlateKitchenObject()\<close>, then one
  \<open>add_kitchen_object\<close> for each ingredient.
\<close>

definition make_plate :: "KitchenObjectSO list \<Rightarrow> 't world \<Rightarrow> PlateKitchenObject \<times> 't world" where
  "make_plate ingredients w =
     (case PlateKitchenObject_init w of
        (plate, w1) \<Rightarrow> (plate, fold (add_kitchen_object plate) ingredients w1))"

text \<open>
  The singleton built on the example catalogue, the game started on it, and updates at
  times 0, 5, 10 and 15: a sandwich and two salads are pending. The times are real numbers
  that doubles represent, with differences that doubles represent.
\<close>

definition example_run :: "real DeliveryManager \<times> real world" where
  "example_run =
     run [StartGame, Update 0 0, Update 5 0, Update 10 1, Update 15 1]
       (create_instance recipe_list None world0)"

section \<open>Evaluation and basic facts\<close>

lemmas heap_defs = deref_def list_store_def new_list_def list_copy_def list_append_def list_pop_def
  empty_heap_def

lemmas world_defs = world0_def start_game_def stop_game_def on_instance_def instance_object_def
  is_game_playing_def gate_read_def gate_active_def logging_def fire_def invoke_def waiting_def
  get_kitchen_object_so_list_def PlateKitchenObject_init_def add_kitchen_object_def

lemmas manager_defs = init_def create_instance_def get_instance_def Event_init_def update_def
  elapsed_def run_def random_choice_def SPAWN_RECIPE_TIMER_MAX_def WAITING_RECIPES_MAX_def
  get_waiting_recipe_so_list_def

lemmas example_defs = example_run_def make_plate_def recipe_list_def sandwich_recipe_def
  salad_recipe_def tomato_def lettuce_def bread_def plate_ingredients_def multiset_match_def

lemmas match_defs = ingredients_match_def Counter_def counter_eq_def counter_get_def

subsection \<open>Counters are multisets\<close>

lemma map_of_counter_add:
  "map_of (counter_add k c) k' = (if k' = k then Some (counter_get c k + 1) else map_of c k')"
  by (induction k c rule: counter_add.induct) (auto simp: counter_get_def)

lemma counter_get_counter_add:
  "counter_get (counter_add k c) k' = (if k' = k then counter_get c k + 1 else counter_get c k')"
  by (simp add: counter_get_def map_of_counter_add)

lemma keys_counter_add: "set (map fst (counter_add k c)) = insert k (set (map fst c))"
  by (induction k c rule: counter_add.induct) auto

lemma counter_get_fold:
  "counter_get (fold counter_add xs c) k = counter_get c k + count_list xs k"
  by (induction xs arbitrary: c) (auto simp: counter_get_counter_add)

lemma keys_fold: "set (map fst (fold counter_add xs c)) = set xs \<union> set (map fst c)"
  by (induction xs arbitrary: c) (auto simp: keys_counter_add simp del: set_map)

lemma counter_get_Counter: "counter_get (Counter xs) k = count_list xs k"
  using counter_get_fold [of xs "[]" k] by (simp add: Counter_def counter_get_def)

lemma keys_Counter: "set (map fst (Counter xs)) = set xs"
  by (simp add: Counter_def keys_fold del: set_map)

lemma counter_eq_Counter: "counter_eq (Counter xs) (Counter ys) \<longleftrightarrow> mset xs = mset ys"
proof -
  have "counter_eq (Counter xs) (Counter ys)
          \<longleftrightarrow> (\<forall>k \<in> set xs \<union> set ys. count_list xs k = count_list ys k)"
    unfolding counter_eq_def list_all_iff set_append
    by (simp only: keys_Counter counter_get_Counter)
  also have "\<dots> \<longleftrightarrow> (\<forall>k. count_list xs k = count_list ys k)"
    by (metis UnCI count_list_0_iff)
  also have "\<dots> \<longleftrightarrow> mset xs = mset ys"
    by (simp add: multiset_eq_iff count_mset)
  finally show ?thesis .
qed

lemma ingredients_match_iff:
  "ingredients_match p r \<longleftrightarrow> mset (map object_id p) = mset (map object_id r)"
  by (simp add: ingredients_match_def counter_eq_Counter)


subsection \<open>The search for a match\<close>





text \<open>
  \<open>deliver_recipe\<close> on a plate, with the copy of the plate's list read back: the copy has
  the elements of the plate's list, and taking it changes neither the queue nor the trace.
\<close>

lemma get_kitchen_object_so_list_frame:
  "recipe_lists (snd (get_kitchen_object_so_list plate w)) = recipe_lists w"
  "trace (snd (get_kitchen_object_so_list plate w)) = trace w"
  "instance_ref (snd (get_kitchen_object_so_list plate w)) = instance_ref w"
  by (simp_all add: get_kitchen_object_so_list_def list_copy_def new_list_def)

lemma deliver_recipe_Some:
  "deliver_recipe (Some plate) self w =
     (let w1 = snd (get_kitchen_object_so_list plate w); p = plate_ingredients plate w
      in if p = [] then
           (None, self, fire RecipeFailed (on_recipe_failed self)
              (logging WARNING ''Attempted to deliver an empty plate.'' w1))
         else if waiting self w = [] then
           (None, self, fire RecipeFailed (on_recipe_failed self)
              (logging WARNING ''No waiting recipes to deliver.'' w1))
         else
           (case find_match p 0 (waiting self w) of
              Some (i, waiting_recipe) \<Rightarrow>
                (case list_pop (waiting_recipe_so_list self) i (recipe_lists w) of
                   Inl e \<Rightarrow>
                     (Some e,
                      self\<lparr>successful_recipes_amount := successful_recipes_amount self + 1\<rparr>, w1)
                 | Inr (popped, h) \<Rightarrow>
                     (None,
                      self\<lparr>successful_recipes_amount := successful_recipes_amount self + 1\<rparr>,
                      fire RecipeSuccess (on_recipe_success self)
                        (fire RecipeCompleted (on_recipe_completed self)
                          (logging INFO
                             (''Recipe delivered successfully: '' @ recipe_name waiting_recipe)
                             (w1\<lparr>recipe_lists := h\<rparr>)))))
            | None \<Rightarrow>
                (None, self, fire RecipeFailed (on_recipe_failed self)
                   (logging INFO ''No matching recipe found for delivery.'' w1))))"
  by (simp add: deliver_recipe_def get_kitchen_object_so_list_def list_copy_def new_list_def
        deref_def waiting_def plate_ingredients_def Let_def list_pop_def
      split: option.splits prod.splits sum.splits)

subsection \<open>The gate\<close>

lemma gate_read_cases:
  "gate_read self w =
     (case instance_ref w of
        NoInstance \<Rightarrow> Inl (ValueError ''recipe_list_so is required for initial creation'')
      | ThisManager \<Rightarrow> is_game_playing self
      | OtherManager m \<Rightarrow> is_game_playing m)"
  by (simp add: gate_read_def get_instance_def instance_object_def split: instance_slot.splits)

lemma SPAWN_RECIPE_TIMER_MAX_real: "SPAWN_RECIPE_TIMER_MAX = (4::real)"
  by (simp add: SPAWN_RECIPE_TIMER_MAX_def)

lemma create_instance_init:
  "create_instance rl src w = init rl src (w\<lparr>instance_ref := ThisManager\<rparr>)"
  by (simp add: create_instance_def init_def new_list_def Let_def)

subsection \<open>The invariant of a run\<close>

lemma manager_inv_init: "manager_inv (init rl src w0)"
  by (simp add: manager_inv_def init_def new_list_def waiting_def deref_def Let_def
        WAITING_RECIPES_MAX_def)

lemma manager_inv_create_instance: "manager_inv (create_instance rl src w0)"
  by (simp add: create_instance_init manager_inv_init)

lemma manager_inv_update: "manager_inv (self, w) \<Longrightarrow> manager_inv (snd (update now entropy self w))"
  by (auto simp: manager_inv_def update_def Let_def waiting_def fire_def
        get_instance_def instance_object_def is_game_playing_def list_append_def list_store_def
        deref_def WAITING_RECIPES_MAX_def
      split: option.splits sum.splits prod.splits instance_slot.splits)

lemma manager_inv_deliver:
  "manager_inv (self, w) \<Longrightarrow> manager_inv (snd (deliver_recipe plate self w))"
proof (cases plate)
  case None
  assume "manager_inv (self, w)"
  with None show ?thesis
    by (simp add: manager_inv_def deliver_recipe_def fire_def logging_def waiting_def)
next
  case (Some p)
  assume "manager_inv (self, w)"
  then show ?thesis
    unfolding Some
    by (auto simp: manager_inv_def deliver_recipe_Some Let_def fire_def logging_def waiting_def
          get_kitchen_object_so_list_frame list_pop_def list_store_def deref_def
        split: option.splits)
qed

lemma manager_inv_on_instance:
  assumes "manager_inv (self, w)"
    and "\<And>m. spawn_recipe_timer (method m) = spawn_recipe_timer m"
    and "\<And>m. last_update_time (method m) = last_update_time m"
    and "\<And>m. waiting_recipe_so_list (method m) = waiting_recipe_so_list m"
  shows "manager_inv (snd (on_instance method self w))"
  using assms
  by (auto simp: manager_inv_def on_instance_def get_instance_def instance_object_def waiting_def
      split: instance_slot.splits)

lemma manager_inv_map_event: "manager_inv (self, w) \<Longrightarrow> manager_inv (map_event k f self, w)"
  by (cases k) (simp_all add: manager_inv_def waiting_def)

lemma manager_inv_step: "manager_inv s \<Longrightarrow> manager_inv (step c s)"
proof (cases s)
  case (Pair self w)
  assume "manager_inv s"
  with Pair show ?thesis
    by (cases c)
       (simp_all add: manager_inv_update manager_inv_deliver manager_inv_map_event
          manager_inv_on_instance start_game_def stop_game_def)
qed

lemma manager_inv_run: "manager_inv s \<Longrightarrow> manager_inv (run calls s)"
  unfolding run_def by (induction calls arbitrary: s) (auto simp: manager_inv_step)

subsection \<open>Handlers and their calls\<close>

lemma handlers_event_after_distinct: "distinct (handlers (event_after ops))"
proof -
  have "distinct (handlers ev) \<Longrightarrow> distinct (handlers (fold apply_event_op ops ev))"
    for ev :: "'a Event"
  proof (induction ops arbitrary: ev)
    case Nil
    then show ?case by simp
  next
    case (Cons a ops)
    have "distinct (handlers (apply_event_op a ev))"
      using Cons.prems by (cases a) (auto simp: add_handler_def remove_handler_def)
    then show ?case using Cons.IH by simp
  qed
  then show ?thesis by (simp add: event_after_def Event_init_def)
qed

lemma calls_of_append: "calls_of (es @ fs) = calls_of es @ calls_of fs"
  by (induction es rule: calls_of.induct) auto

lemma calls_of_call_effects: "calls_of (concat (map (call_effects beh) hs)) = hs"
  by (induction hs) (auto simp: calls_of_append call_effects_def split: option.splits sum.splits)

lemma count_list_1: "distinct xs \<Longrightarrow> x \<in> set xs \<Longrightarrow> count_list xs x = 1"
  by (induction xs) auto

text \<open>With quiet handlers the loop calls the handlers from position \<open>i\<close> on, one by one.\<close>

lemma invoke_live_quiet:
  assumes q: "\<forall>g \<in> set (handlers ev). quiet beh ev g"
  shows "i \<le> length (handlers ev) \<Longrightarrow>
     invoke_live beh i ev acc
       = Some (None, ev, acc @ concat (map (call_effects beh) (drop i (handlers ev))))"
proof (induction "length (handlers ev) - i" arbitrary: i acc)
  case 0
  then show ?case by (subst invoke_live.simps) simp
next
  case (Suc n)
  then have i: "i < length (handlers ev)" by simp
  let ?g = "handlers ev ! i"
  from i q have qg: "quiet beh ev ?g" by simp
  then have unch: "fold apply_event_op (fst (beh ?g)) ev = ev" by (simp add: quiet_def)
  have n: "n = length (handlers ev) - Suc i" using Suc.hyps(2) by simp
  have le: "Suc i \<le> length (handlers ev)" using i by simp
  have dr: "drop i (handlers ev) = ?g # drop (Suc i) (handlers ev)"
    using i by (simp add: Cons_nth_drop_Suc)
  show ?case
  proof (cases "snd (beh ?g)")
    case None
    then show ?thesis
      using i Suc.hyps(1) [OF n le, of "acc @ [Call ?g]"]
      by (subst invoke_live.simps) (simp add: unch dr call_effects_def)
  next
    case (Some e)
    with qg obtain msg where e: "is_Exception e" "str_of e = Inr msg"
      by (auto simp: quiet_def split: sum.splits)
    show ?thesis
      using i Some e
        Suc.hyps(1) [OF n le, of "acc @ [Call ?g, Log ERROR (''Event handler error: '' @ msg)]"]
      by (subst invoke_live.simps) (simp add: unch dr call_effects_def)
  qed
qed

text \<open>Plain handlers are quiet, and on them the loop over the list is the loop of the code.\<close>

lemma quiet_handler_behaviour: "quiet handler_behaviour ev h"
  by (cases "handler_raises h") (simp_all add: quiet_def handler_behaviour_def)

lemma call_effects_handler_behaviour:
  "concat (map (call_effects handler_behaviour) hs) = invoke_loop hs"
  by (induction hs) (auto simp: call_effects_def handler_behaviour_def split: option.splits)

lemma invoke_live_invoke:
  "invoke_live handler_behaviour 0 ev acc = Some (None, ev, acc @ invoke ev)"
  using invoke_live_quiet [of ev handler_behaviour 0 acc]
  by (simp add: quiet_handler_behaviour call_effects_handler_behaviour invoke_def)

section \<open>Spawning\<close>

text \<open>
  Claim C1, as the code has it. One call of \<open>update\<close> stores the time given as the new
  baseline and subtracts the elapsed time from the timer, with the subtraction of the
  numbers the manager runs on. It appends a recipe to the pending queue and fires the
  spawned event exactly when the timer so obtained is at most 0, the gate is active, the
  queue is shorter than \<open>WAITING_RECIPES_MAX\<close>, and the random source returns a recipe;
  the recipe appended is the one the source returned. When the source raises, the
  exception leaves \<open>update\<close> and the world is untouched. In every other case the world is
  untouched too; a gate that cannot be read, on an expired timer, raises its exception out
  of \<open>update\<close>. The default source \<open>random.choice\<close> returns a recipe of the catalogue
  when the catalogue is not empty and raises when it is. In every case a timer that
  reached 0 or less is reset to exactly \<open>SPAWN_RECIPE_TIMER_MAX\<close>, however far below 0
  it went, a timer above 0 keeps its new value, and nothing else of the manager changes.
\<close>

theorem update_spawn:
  "(case update now entropy self w of (exc, self', w') \<Rightarrow>
      self' = self\<lparr>last_update_time := Some now,
                   spawn_recipe_timer :=
                     (if spawn_recipe_timer self - elapsed now self \<le> 0
                      then SPAWN_RECIPE_TIMER_MAX
                      else spawn_recipe_timer self - elapsed now self)\<rparr>
      \<and> (if spawn_recipe_timer self - elapsed now self \<le> 0 \<and> gate_active self w
            \<and> length (waiting self w) < WAITING_RECIPES_MAX
          then (case random_gen self entropy (recipe_so_list (recipe_list_so self)) of
                  Inr r \<Rightarrow> exc = None \<and> waiting self' w' = waiting self w @ [r]
                    \<and> trace w' = trace w @ Publish RecipeSpawned # invoke (on_recipe_spawned self)
                    \<and> w' = w\<lparr>recipe_lists :=
                                 list_append (waiting_recipe_so_list self) r (recipe_lists w),
                               trace :=
                                 trace w @ Publish RecipeSpawned # invoke (on_recipe_spawned self)\<rparr>
                | Inl e \<Rightarrow> exc = Some e \<and> w' = w)
          else w' = w
            \<and> exc = (if spawn_recipe_timer self - elapsed now self \<le> 0
                     then (case gate_read self w of Inl e \<Rightarrow> Some e | Inr playing \<Rightarrow> None)
                     else None)))
   \<and> (random_gen self = random_choice \<longrightarrow>
        (case random_gen self entropy (recipe_so_list (recipe_list_so self)) of
           Inl e \<Rightarrow> recipe_so_list (recipe_list_so self) = []
         | Inr r \<Rightarrow> recipe_so_list (recipe_list_so self) \<noteq> []
             \<and> r \<in> set (recipe_so_list (recipe_list_so self))))"
  by (auto simp: update_def Let_def elapsed_def gate_active_def gate_read_def waiting_def
        fire_def get_instance_def instance_object_def is_game_playing_def list_append_def
        list_store_def deref_def random_choice_def
      split: option.splits sum.splits prod.splits instance_slot.splits)

text \<open>
  The singleton on the example catalogue, the game started, a first call at time 0 and a
  second at time 5 with entropy 1: the salad is spawned and the timer is back at 4. On a
  manager built by the constructor alone there is no singleton, and on a singleton whose
  game was never started or stopped there is no flag: the second call resets the timer,
  spawns nothing and raises.
\<close>

theorem update_spawn_witness:
  "(case run [StartGame, Update 0 0] (create_instance recipe_list None (world0 :: real world)) of
      (self, w) \<Rightarrow>
        random_gen self = random_choice
        \<and> spawn_recipe_timer self - elapsed 5 self \<le> 0 \<and> gate_active self w
        \<and> length (waiting self w) < WAITING_RECIPES_MAX
        \<and> (case update 5 1 self w of (exc, self', w') \<Rightarrow>
             exc = None \<and> spawn_recipe_timer self' = 4 \<and> last_update_time self' = Some 5
             \<and> waiting self' w' = [salad_recipe] \<and> trace w' = [Publish RecipeSpawned]))
   \<and> (case run [Update 0 0] (init recipe_list None (world0 :: real world)) of
        (self, w) \<Rightarrow>
          spawn_recipe_timer self - elapsed 5 self \<le> 0 \<and> \<not> gate_active self w
          \<and> (case update 5 1 self w of (exc, self', w') \<Rightarrow>
               exc = Some (ValueError ''recipe_list_so is required for initial creation'')
               \<and> spawn_recipe_timer self' = 4 \<and> last_update_time self' = Some 5
               \<and> waiting self' w' = [] \<and> trace w' = []))
   \<and> (case run [Update 0 0] (create_instance recipe_list None (world0 :: real world)) of
        (self, w) \<Rightarrow>
          spawn_recipe_timer self - elapsed 5 self \<le> 0 \<and> \<not> gate_active self w
          \<and> (case update 5 1 self w of (exc, self', w') \<Rightarrow>
               exc = Some (AttributeError
                             ''KitchenGameManager object has no attribute _is_game_playing'')
               \<and> spawn_recipe_timer self' = 4 \<and> last_update_time self' = Some 5
               \<and> waiting self' w' = [] \<and> trace w' = []))"
  using update_spawn [where now = 5 and entropy = 1
      and self = "fst (run [StartGame, Update 0 0]
                         (create_instance recipe_list None (world0 :: real world)))"
      and w = "snd (run [StartGame, Update 0 0]
                      (create_instance recipe_list None (world0 :: real world)))"]
    update_spawn [where now = 5 and entropy = 1
      and self = "fst (run [Update 0 0] (init recipe_list None (world0 :: real world)))"
      and w = "snd (run [Update 0 0] (init recipe_list None (world0 :: real world)))"]
    update_spawn [where now = 5 and entropy = 1
      and self = "fst (run [Update 0 0] (create_instance recipe_list None (world0 :: real world)))"
      and w = "snd (run [Update 0 0] (create_instance recipe_list None (world0 :: real world)))"]
  by (simp add: manager_defs world_defs heap_defs Let_def recipe_list_def)

text \<open>
  The claim as written fails on a singleton built with an empty catalogue: the timer has
  expired, the game is playing and the queue is empty, yet nothing is appended and no event
  is fired; \<open>random.choice\<close> raises \<open>IndexError\<close> out of \<open>update\<close>.
\<close>

theorem update_spawn_counterexample:
  "(case run [StartGame, Update 0 0] (create_instance \<lparr>recipe_so_list = []\<rparr> None (world0 :: real world)) of (self, w) \<Rightarrow>
     (case update 5 0 self w of (exc, self', w') \<Rightarrow>
        spawn_recipe_timer self - elapsed 5 self \<le> 0 \<and> gate_active self w
        \<and> length (waiting self w) < WAITING_RECIPES_MAX
        \<and> exc = Some (IndexError ''Cannot choose from an empty sequence'')
        \<and> waiting self' w' = waiting self w \<and> trace w' = trace w))"
  by (simp add: manager_defs world_defs heap_defs Let_def)

section \<open>Delivery\<close>





section \<open>The queue stays within its capacity\<close>

text \<open>
  Claim C4. After any sequence of calls of \<open>update\<close> and \<open>deliver_recipe\<close> (and of
  starts and stops of the game, subscriptions and unsubscriptions) on a manager just
  constructed, by the constructor alone or as the singleton, the pending queue holds at
  most \<open>WAITING_RECIPES_MAX\<close> orders.
\<close>

theorem queue_bounded:
  "(case run calls (init rl src w0) of (self, w) \<Rightarrow>
      length (waiting self w) \<le> WAITING_RECIPES_MAX)
   \<and> (case run calls (create_instance rl src w0) of (self, w) \<Rightarrow>
      length (waiting self w) \<le> WAITING_RECIPES_MAX)"
  using manager_inv_run [OF manager_inv_init, of calls rl src w0]
    manager_inv_run [OF manager_inv_create_instance, of calls rl src w0]
  by (auto simp: manager_inv_def)

text \<open>Seven updates five seconds apart fill the queue at four orders, and it stays there.\<close>

theorem queue_bounded_witness:
  "(case run [StartGame, Update 0 0, Update 5 0, Update 10 1, Update 15 0, Update 20 1,
              Update 25 0, Update 30 1] (create_instance recipe_list None (world0 :: real world)) of
      (self, w) \<Rightarrow> length (waiting self w) \<le> WAITING_RECIPES_MAX
        \<and> waiting self w = [sandwich_recipe, salad_recipe, sandwich_recipe, salad_recipe])"
  using queue_bounded [where calls = "[StartGame, Update 0 0, Update 5 0, Update 10 1,
      Update 15 0, Update 20 1, Update 25 0, Update 30 1]"
      and rl = recipe_list and src = None and ?w0.0 = world0]
  by (simp add: manager_defs world_defs heap_defs Let_def recipe_list_def)

section \<open>Order and duplicates in matching\<close>

text \<open>
  Claim C5, as the code has it. The order of a recipe's ingredients plays no part in
  matching: a plate matches a recipe exactly when the two multisets of identifiers are
  equal, so of two recipes whose ingredient lists are permutations of each other a plate
  matches both or neither. The number of occurrences does count: a plate that matches a
  recipe does not match the recipe with one more ingredient.
\<close>

theorem ingredients_match_order:
  "(ingredients_match p r \<longleftrightarrow> mset (map object_id p) = mset (map object_id r))
   \<and> (mset r1 = mset r2 \<longrightarrow> ingredients_match p r1 = ingredients_match p r2)
   \<and> (ingredients_match p r \<longrightarrow> \<not> ingredients_match p (x # r))"
proof -
  have "mset r1 = mset r2 \<Longrightarrow> mset (map object_id r1) = mset (map object_id r2)"
    by (metis mset_map)
  moreover have "mset (map object_id p) = mset (map object_id r) \<Longrightarrow>
      mset (map object_id p) \<noteq> mset (map object_id (x # r))"
    by simp
  ultimately show ?thesis by (auto simp: ingredients_match_iff)
qed

theorem ingredients_match_order_witness:
  "mset [lettuce, tomato] = mset [tomato, lettuce]
   \<and> ingredients_match [tomato, lettuce] [lettuce, tomato]
   \<and> ingredients_match [tomato, lettuce] [tomato, lettuce]
   \<and> \<not> ingredients_match [tomato, lettuce] [tomato, lettuce, tomato]"
  using ingredients_match_order [where p = "[tomato, lettuce]" and r = "[lettuce, tomato]"
      and ?r1.0 = "[lettuce, tomato]" and ?r2.0 = "[tomato, lettuce]" and x = tomato]
  by (simp add: tomato_def lettuce_def match_defs)

text \<open>
  The claim as written asks for a plate and two recipes, permutations of each other, of
  which the plate matches one and not the other. There are none.
\<close>

theorem ingredients_match_order_counterexample:
  "\<not> (\<exists>p r1 r2. mset r1 = mset r2 \<and> ingredients_match p r1 \<and> \<not> ingredients_match p r2)"
proof -
  have "mset r1 = mset r2 \<Longrightarrow> mset (map object_id r1) = mset (map object_id r2)"
    for r1 r2 :: "KitchenObjectSO list"
    by (metis mset_map)
  then show ?thesis by (auto simp: ingredients_match_iff)
qed

section \<open>Construction\<close>

text \<open>
  Claim C6, as the code has it. The first \<open>get_instance\<close> with no catalogue fails at once
  with \<open>ValueError\<close>. With a catalogue, empty or not, it constructs the manager on that
  catalogue, makes it the singleton and returns it; the constructor never fails either. A
  manager on an empty catalogue with the default random source fails later: the call of
  \<open>update\<close> that attempts the first spawn raises \<open>IndexError\<close>.
\<close>

theorem get_instance_construction:
  "get_instance None None src w
     = Inl (ValueError ''recipe_list_so is required for initial creation'')
   \<and> get_instance None (Some rl) src w = Inr (create_instance rl src w)
   \<and> create_instance rl src w = init rl src (w\<lparr>instance_ref := ThisManager\<rparr>)
   \<and> recipe_list_so (fst (create_instance rl src w)) = rl
   \<and> recipe_list_so (fst (init rl src w)) = rl
   \<and> (recipe_so_list (recipe_list_so self) = [] \<and> random_gen self = random_choice
        \<and> spawn_recipe_timer self - elapsed now self \<le> 0 \<and> gate_active self w'
        \<and> length (waiting self w') < WAITING_RECIPES_MAX \<longrightarrow>
       fst (update now entropy self w')
         = Some (IndexError ''Cannot choose from an empty sequence''))"
  by (auto simp: get_instance_def create_instance_def init_def new_list_def update_def Let_def
        elapsed_def gate_active_def gate_read_def waiting_def instance_object_def
        is_game_playing_def random_choice_def
      split: option.splits prod.splits sum.splits instance_slot.splits)

theorem get_instance_construction_witness:
  "get_instance None None None (world0 :: real world)
     = Inl (ValueError ''recipe_list_so is required for initial creation'')
   \<and> get_instance None (Some \<lparr>recipe_so_list = []\<rparr>) None (world0 :: real world)
       = Inr (create_instance \<lparr>recipe_so_list = []\<rparr> None (world0 :: real world))
   \<and> (case run [StartGame, Update 0 0] (create_instance \<lparr>recipe_so_list = []\<rparr> None (world0 :: real world)) of
        (self, w) \<Rightarrow>
          recipe_so_list (recipe_list_so self) = [] \<and> random_gen self = random_choice
          \<and> spawn_recipe_timer self - elapsed 5 self \<le> 0 \<and> gate_active self w
          \<and> length (waiting self w) < WAITING_RECIPES_MAX
          \<and> fst (update 5 0 self w) = Some (IndexError ''Cannot choose from an empty sequence''))"
  using get_instance_construction [where src = None and w = "world0 :: real world"
      and w' = "snd (run [StartGame, Update 0 0] (create_instance \<lparr>recipe_so_list = []\<rparr> None (world0 :: real world)))"
      and self = "fst (run [StartGame, Update 0 0] (create_instance \<lparr>recipe_so_list = []\<rparr> None (world0 :: real world)))"
      and now = 5 and entropy = 0 and rl = "\<lparr>recipe_so_list = []\<rparr>"]
  by (simp add: get_instance_def manager_defs world_defs heap_defs Let_def)

text \<open>
  The claim as written fails: the first \<open>get_instance\<close> on an empty catalogue returns a
  manager, whose first \<open>update\<close> returns normally; the exception comes with the second,
  when the timer has expired.
\<close>

theorem get_instance_construction_counterexample:
  "(case get_instance None (Some \<lparr>recipe_so_list = []\<rparr>) None (world0 :: real world) of
      Inl e \<Rightarrow> False
    | Inr s \<Rightarrow>
        recipe_so_list (recipe_list_so (fst s)) = []
        \<and> fst (update 0 0 (fst (run [StartGame] s)) (snd (run [StartGame] s))) = None
        \<and> fst (update 5 0 (fst (run [StartGame, Update 0 0] s))
                 (snd (run [StartGame, Update 0 0] s)))
            = Some (IndexError ''Cannot choose from an empty sequence''))"
  by (simp add: get_instance_def manager_defs world_defs heap_defs Let_def)

section \<open>Events\<close>

text \<open>
  Claim C7, as the code has it. On an event reached from a new one by any additions and
  removals of handlers: adding a handler a second time changes nothing, a handler not yet
  registered goes to the end of the list, a handler added twice is in the list once, and
  a handler removed is in the list no more (removing one that is not there changes nothing).
  When every registered handler is quiet (its call leaves the list of handlers as it is,
  and it returns or raises an instance of \<open>Exception\<close> whose text can be formatted),
  \<open>invoke\<close> returns normally, leaves the event as it is, and calls the registered
  handlers, each of them once, in the order of the list, whichever of them raise; the
  exception of a handler is logged after its call and before the calls of the handlers
  that follow.
\<close>

theorem event_channel:
  "add_handler h (add_handler h (event_after ops)) = add_handler h (event_after ops)
   \<and> (h \<notin> set (handlers (event_after ops)) \<longrightarrow>
         handlers (add_handler h (event_after ops)) = handlers (event_after ops) @ [h])
   \<and> count_list (handlers (add_handler h (add_handler h (event_after ops)))) h = 1
   \<and> h \<notin> set (handlers (remove_handler h (event_after ops)))
   \<and> (h \<notin> set (handlers (event_after ops)) \<longrightarrow>
         remove_handler h (event_after ops) = event_after ops)
   \<and> ((\<forall>g \<in> set (handlers (event_after ops)). quiet beh (event_after ops) g) \<longrightarrow>
         invoke_live beh 0 (event_after ops) []
           = Some (None, event_after ops,
                   concat (map (call_effects beh) (handlers (event_after ops))))
         \<and> calls_of (concat (map (call_effects beh) (handlers (event_after ops))))
             = handlers (event_after ops)
         \<and> (\<forall>g \<in> set (handlers (event_after ops)).
               count_list (calls_of (concat (map (call_effects beh) (handlers (event_after ops))))) g = 1))"
proof -
  let ?ev = "event_after ops"
  have d: "distinct (handlers ?ev)" by (rule handlers_event_after_distinct)
  have a: "add_handler h (add_handler h ?ev) = add_handler h ?ev"
    by (simp add: add_handler_def)
  have d2: "distinct (handlers (add_handler h ?ev))" "h \<in> set (handlers (add_handler h ?ev))"
    using d by (auto simp: add_handler_def)
  have c: "count_list (handlers (add_handler h ?ev)) h = 1"
    using d2 by (rule count_list_1)
  have once: "\<forall>g \<in> set (handlers ?ev). count_list (handlers ?ev) g = 1"
    using d by (simp add: count_list_1)
  have live: "(\<forall>g \<in> set (handlers ?ev). quiet beh ?ev g) \<Longrightarrow>
      invoke_live beh 0 ?ev [] = Some (None, ?ev, concat (map (call_effects beh) (handlers ?ev)))"
    using invoke_live_quiet [of ?ev beh 0 "[]"] by simp
  have r: "h \<notin> set (handlers (remove_handler h ?ev))"
    using d by (simp add: remove_handler_def)
  have r0: "h \<notin> set (handlers ?ev) \<longrightarrow> remove_handler h ?ev = ?ev"
    by (simp add: remove_handler_def)
  show ?thesis
    unfolding a
    using c once live r r0 by (auto simp: calls_of_call_effects add_handler_def)
qed

text \<open>Three handlers, the second of which raises; the first is added twice.\<close>

theorem event_channel_witness:
  "handlers (event_after [AddHandler (1::nat), AddHandler 2, AddHandler 1, AddHandler 3])
     = [1, 2, 3]
   \<and> add_handler 1 (add_handler 1
        (event_after [AddHandler (1::nat), AddHandler 2, AddHandler 1, AddHandler 3]))
     = event_after [AddHandler 1, AddHandler 2, AddHandler 1, AddHandler 3]
   \<and> quiet (\<lambda>g. ([], if g = 2 then Some (OtherException ''boom'') else None))
        (event_after [AddHandler (1::nat), AddHandler 2, AddHandler 1, AddHandler 3]) 1
   \<and> quiet (\<lambda>g. ([], if g = 2 then Some (OtherException ''boom'') else None))
        (event_after [AddHandler (1::nat), AddHandler 2, AddHandler 1, AddHandler 3]) 2
   \<and> quiet (\<lambda>g. ([], if g = 2 then Some (OtherException ''boom'') else None))
        (event_after [AddHandler (1::nat), AddHandler 2, AddHandler 1, AddHandler 3]) 3
   \<and> invoke_live (\<lambda>g. ([], if g = 2 then Some (OtherException ''boom'') else None)) 0
        (event_after [AddHandler (1::nat), AddHandler 2, AddHandler 1, AddHandler 3]) []
     = Some (None, \<lparr>handlers = [1, 2, 3]\<rparr>,
             [Call 1, Call 2, Log ERROR ''Event handler error: boom'', Call 3])"
  using event_channel [where h = "1::nat"
      and ops = "[AddHandler 1, AddHandler 2, AddHandler 1, AddHandler 3]"
      and beh = "\<lambda>g. ([], if g = 2 then Some (OtherException ''boom'') else None)"]
  by (simp add: event_after_def Event_init_def add_handler_def remove_handler_def quiet_def
        call_effects_def)

text \<open>
  The claim as written fails in three ways. A first handler that unsubscribes itself when
  called shifts the list under the loop: the second handler, registered, is not called. A
  handler that raises \<open>SystemExit\<close> is not caught: the exception leaves \<open>invoke\<close> and
  the handlers after it are not called. The same happens when the exception caught cannot
  be formatted into the log record.
\<close>

theorem event_channel_counterexample:
  "invoke_live (\<lambda>g. (if g = 1 then [RemoveHandler 1] else [], None)) 0
      (event_after [AddHandler (1::nat), AddHandler 2, AddHandler 3]) []
     = Some (None, \<lparr>handlers = [2, 3]\<rparr>, [Call 1, Call 3])
   \<and> invoke_live (\<lambda>g. ([], if g = 1 then Some (BaseException ''SystemExit'') else None)) 0
      (event_after [AddHandler (1::nat), AddHandler 2, AddHandler 3]) []
     = Some (Some (BaseException ''SystemExit''), \<lparr>handlers = [1, 2, 3]\<rparr>, [Call 1])
   \<and> invoke_live
        (\<lambda>g. ([], if g = 1 then Some (UnprintableException (ValueError ''bad'')) else None)) 0
      (event_after [AddHandler (1::nat), AddHandler 2, AddHandler 3]) []
     = Some (Some (ValueError ''bad''), \<lparr>handlers = [1, 2, 3]\<rparr>, [Call 1])"
  by (simp add: event_after_def Event_init_def add_handler_def remove_handler_def
        invoke_live.simps)

section \<open>Snapshots of the queue\<close>

text \<open>
  Claim C8. On a manager whose queue is an allocated list object (construction allocates
  it, and every call keeps it so), two calls of \<open>get_waiting_recipe_so_list\<close> in a row
  return two list objects with the elements of the queue, hence equal in value; neither is
  the queue object itself, the queue is as before, and storing any elements at all into
  either snapshot leaves the queue as it was.
\<close>

theorem get_waiting_recipe_so_list_copy:
  assumes "waiting_recipe_so_list self < next_ref (recipe_lists w)"
  shows "(case get_waiting_recipe_so_list self w of (s1, w1) \<Rightarrow>
           (case get_waiting_recipe_so_list self w1 of (s2, w2) \<Rightarrow>
              deref (recipe_lists w2) s1 = waiting self w
              \<and> deref (recipe_lists w2) s2 = waiting self w
              \<and> waiting self w2 = waiting self w
              \<and> s1 \<noteq> waiting_recipe_so_list self \<and> s2 \<noteq> waiting_recipe_so_list self
              \<and> (\<forall>xs. waiting self (w2\<lparr>recipe_lists := list_store s1 xs (recipe_lists w2)\<rparr>)
                     = waiting self w)
              \<and> (\<forall>xs. waiting self (w2\<lparr>recipe_lists := list_store s2 xs (recipe_lists w2)\<rparr>)
                     = waiting self w)))"
  using assms
  by (auto simp: get_waiting_recipe_so_list_def list_copy_def new_list_def list_store_def
        deref_def waiting_def Let_def)

text \<open>Two snapshots of the example queue; the first is then emptied.\<close>

theorem get_waiting_recipe_so_list_copy_witness:
  "waiting_recipe_so_list (fst example_run) < next_ref (recipe_lists (snd example_run))
   \<and> (case get_waiting_recipe_so_list (fst example_run) (snd example_run) of (s1, w1) \<Rightarrow>
        (case get_waiting_recipe_so_list (fst example_run) w1 of (s2, w2) \<Rightarrow>
           deref (recipe_lists w2) s1 = [sandwich_recipe, salad_recipe, salad_recipe]
           \<and> deref (recipe_lists w2) s2 = [sandwich_recipe, salad_recipe, salad_recipe]
           \<and> waiting (fst example_run) (w2\<lparr>recipe_lists := list_store s1 [] (recipe_lists w2)\<rparr>)
               = [sandwich_recipe, salad_recipe, salad_recipe]))"
  using get_waiting_recipe_so_list_copy [where self = "fst example_run" and w = "snd example_run"]
  by (simp add: example_defs manager_defs world_defs heap_defs Let_def)

section \<open>The first update\<close>

text \<open>
  Claim C9. On a manager reached from construction by any calls, as long as \<open>update\<close> has
  not been called (\<open>last_update_time\<close> is \<open>None\<close>), a call of \<open>update\<close> returns normally
  and changes nothing but \<open>last_update_time\<close>, which becomes the time given: the timer, the
  queue, the success counter, the singleton and the trace of events are as before.
\<close>

theorem update_first_call:
  fixes now :: real
  assumes "run calls (init rl src w0) = (self, w)
             \<or> run calls (create_instance rl src w0) = (self, w)"
    and "last_update_time self = None"
  shows "update now entropy self w = (None, self\<lparr>last_update_time := Some now\<rparr>, w)"
proof -
  from manager_inv_run [OF manager_inv_init, of calls rl src w0]
    manager_inv_run [OF manager_inv_create_instance, of calls rl src w0] assms
  have "spawn_recipe_timer self = SPAWN_RECIPE_TIMER_MAX" by (auto simp: manager_inv_def)
  with assms(2) show ?thesis
    by (simp add: update_def Let_def SPAWN_RECIPE_TIMER_MAX_def)
qed

text \<open>
  The game is started, a handler is subscribed and a delivery fails before the first
  update, at time 100.
\<close>

theorem update_first_call_witness:
  "last_update_time
     (fst (run [StartGame, Subscribe RecipeFailed (Handler 1 None), Deliver None]
             (create_instance recipe_list None (world0 :: real world)))) = None
   \<and> trace
       (snd (run [StartGame, Subscribe RecipeFailed (Handler 1 None), Deliver None]
               (create_instance recipe_list None (world0 :: real world))))
       = [Log WARNING ''Attempted to deliver a None plate.'', Publish RecipeFailed,
          Call (Handler 1 None)]
   \<and> update 100 0
        (fst (run [StartGame, Subscribe RecipeFailed (Handler 1 None), Deliver None]
                (create_instance recipe_list None (world0 :: real world))))
        (snd (run [StartGame, Subscribe RecipeFailed (Handler 1 None), Deliver None]
                (create_instance recipe_list None (world0 :: real world))))
       = (None,
          (fst (run [StartGame, Subscribe RecipeFailed (Handler 1 None), Deliver None]
                  (create_instance recipe_list None (world0 :: real world))))
            \<lparr>last_update_time := Some 100\<rparr>,
          snd (run [StartGame, Subscribe RecipeFailed (Handler 1 None), Deliver None]
                 (create_instance recipe_list None (world0 :: real world))))"
  using update_first_call
      [where calls = "[StartGame, Subscribe RecipeFailed (Handler 1 None), Deliver None]"
        and rl = recipe_list and src = None and ?w0.0 = world0 and now = 100 and entropy = 0
        and self = "fst (run [StartGame, Subscribe RecipeFailed (Handler 1 None), Deliver None]
                           (create_instance recipe_list None (world0 :: real world)))"
        and w = "snd (run [StartGame, Subscribe RecipeFailed (Handler 1 None), Deliver None]
                        (create_instance recipe_list None (world0 :: real world)))"]
  by (simp add: manager_defs world_defs heap_defs deliver_recipe_def add_handler_def Let_def)

section \<open>The plate is only read\<close>

text \<open>
  Claim C10. A delivery leaves the plate's own ingredient list as it was, and with it every
  ingredient list allocated before the call. The list the manager counts is the copy made
  by \<open>get_kitchen_object_so_list\<close>: for an allocated plate list it is another object with
  the same elements.
\<close>

theorem deliver_recipe_plate_unchanged:
  "(case deliver_recipe plate self w of (exc, self', w') \<Rightarrow>
      (\<forall>p. plate = Some p \<longrightarrow> plate_ingredients p w' = plate_ingredients p w)
      \<and> (\<forall>r < next_ref (ingredient_lists w).
            deref (ingredient_lists w') r = deref (ingredient_lists w) r)
      \<and> (\<forall>p. plate = Some p
             \<and> plate_kitchen_object_so_list p < next_ref (ingredient_lists w) \<longrightarrow>
            (case get_kitchen_object_so_list p w of (r, w1) \<Rightarrow>
               r \<noteq> plate_kitchen_object_so_list p
               \<and> deref (ingredient_lists w1) r = plate_ingredients p w
               \<and> plate_ingredients p w1 = plate_ingredients p w)))"
proof (cases plate)
  case None
  then show ?thesis
    by (simp add: deliver_recipe_def fire_def logging_def)
next
  case (Some p)
  show ?thesis
    unfolding Some
    by (auto simp: deliver_recipe_Some Let_def fire_def logging_def plate_ingredients_def
          get_kitchen_object_so_list_def list_copy_def new_list_def deref_def
        split: option.splits sum.splits prod.splits)
qed

text \<open>The plate of tomato and lettuce, delivered with success, still holds both.\<close>

theorem deliver_recipe_plate_unchanged_witness:
  "plate_kitchen_object_so_list (fst (make_plate [tomato, lettuce] (snd example_run)))
     < next_ref (ingredient_lists (snd (make_plate [tomato, lettuce] (snd example_run))))
   \<and> plate_ingredients (fst (make_plate [tomato, lettuce] (snd example_run)))
       (snd (make_plate [tomato, lettuce] (snd example_run))) = [tomato, lettuce]
   \<and> (case deliver_recipe (Some (fst (make_plate [tomato, lettuce] (snd example_run))))
              (fst example_run) (snd (make_plate [tomato, lettuce] (snd example_run))) of
         (exc, self', w') \<Rightarrow>
           plate_ingredients (fst (make_plate [tomato, lettuce] (snd example_run))) w'
             = [tomato, lettuce])"
  using deliver_recipe_plate_unchanged
      [where plate = "Some (fst (make_plate [tomato, lettuce] (snd example_run)))"
        and self = "fst example_run"
        and w = "snd (make_plate [tomato, lettuce] (snd example_run))"]
  by (simp add: example_defs manager_defs world_defs heap_defs deliver_recipe_def match_defs
        Let_def)

end
